theory Spec2Isabelle
  imports Main
begin

section \<open>Python values, exceptions and the configuration object\<close>

text \<open>
  The module \<^verbatim>\<open>aws_saml_auth/amazon.py\<close> defines the class \<^verbatim>\<open>Amazon\<close>. Its methods
  are embedded here as HOL functions. Exceptions are values of the type \<open>exn\<close>; a method that
  can raise returns \<open>exn + 'a\<close> with \<open>Inl\<close> for the raised exception. Python strings and byte
  strings are \<open>string\<close>; Python integers are \<open>int\<close>.
\<close>

datatype pyval = Str string | Datetime int

text \<open>A dictionary with string keys is an association list read with \<open>map_of\<close>.\<close>

type_synonym credentials = "(string \<times> pyval) list"

text \<open>
  The response of the token endpoint is a dictionary; the code reads only its entry
  \<^verbatim>\<open>"Credentials"\<close>, itself a dictionary.
\<close>

type_synonym token = "(string \<times> credentials) list"

text \<open>
  \<^verbatim>\<open>err.response["Error"]\<close> of a botocore \<^verbatim>\<open>ClientError\<close>: the entries \<^verbatim>\<open>"Code"\<close> and
  \<^verbatim>\<open>"Message"\<close>, each possibly absent.
\<close>

datatype error_info = ErrorInfo (Code: "string option") (Message: "string option")

text \<open>
  \<open>ClientError r\<close> carries the entry \<^verbatim>\<open>"Error"\<close> of \<^verbatim>\<open>err.response\<close>, \<open>None\<close> when the
  response has no such entry. \<open>OtherError\<close> stands for every exception class that the module
  does not name (network failures, XML syntax errors, ...).
\<close>

datatype exn =
    ClientError "error_info option"
  | ProfileNotFound string
  | ExpectedAmazonException string
  | AssertionError string
  | AttributeError string
  | IndexError
  | KeyError string
  | TypeError
  | OtherError string

record config =
  region :: "string option"
  role_arn :: string
  provider :: string
  duration :: "int option"
  auto_duration :: bool
  max_duration :: int
  token_cache :: "credentials option"

text \<open>The keyword arguments \<^verbatim>\<open>sts_call_vars\<close>; \<open>DurationSeconds = None\<close> is an absent key.\<close>

record sts_request =
  RoleArn :: string
  PrincipalArn :: string
  SAMLAssertion :: string
  DurationSeconds :: "int option"

section \<open>The process environment and the boto3 library\<close>

text \<open>
  The state a call runs in: \<^verbatim>\<open>os.environ\<close>, the log of the requests sent to the
  token endpoint so far (one entry per call of \<^verbatim>\<open>assume_role_with_saml\<close> on the broker's
  client), and the state \<open>ext\<close> of everything outside the process, which the library calls
  read and change.
\<close>

record 'w world =
  environ :: "string \<rightharpoonup> string"
  calls :: "sts_request list"
  ext :: 'w

text \<open>
  The library functions the broker calls, as parameters: \<^verbatim>\<open>boto3.client("sts", region_name=r)\<close>
  reads the environment and returns a client or raises; \<^verbatim>\<open>client.assume_role_with_saml\<close>
  returns a token or raises; \<^verbatim>\<open>base64.b64encode(x).decode("utf-8")\<close> is a pure function.
\<close>

record ('c, 'w) boto =
  boto3_client :: "(string \<rightharpoonup> string) \<Rightarrow> string option \<Rightarrow> 'w \<Rightarrow> (exn + 'c) \<times> 'w"
  assume_role_with_saml :: "'c \<Rightarrow> sts_request \<Rightarrow> 'w \<Rightarrow> (exn + token) \<times> 'w"
  b64encode :: "string \<Rightarrow> string"

subsection \<open>\<^verbatim>\<open>Amazon.sts_client\<close>\<close>

definition sts_client :: "('c, 'w) boto \<Rightarrow> config \<Rightarrow> 'w world \<Rightarrow> (exn + 'c) \<times> 'w world" where
  "sts_client b cfg s =
     (let profile = environ s ''AWS_PROFILE'';
          s1 = (case profile of
                  None \<Rightarrow> s
                | Some _ \<Rightarrow> s\<lparr>environ := (environ s)(''AWS_PROFILE'' := None)\<rparr>)
      in case boto3_client b (environ s1) (region cfg) (ext s1) of
           (Inr client, w) \<Rightarrow>
             (Inr client,
              (case profile of
                 None \<Rightarrow> s1\<lparr>ext := w\<rparr>
               | Some p \<Rightarrow> s1\<lparr>environ := (environ s1)(''AWS_PROFILE'' \<mapsto> p), ext := w\<rparr>))
         | (Inl (ProfileNotFound msg), w) \<Rightarrow>
             (Inl (ExpectedAmazonException (''Error : '' @ msg @ ''.'')), s1\<lparr>ext := w\<rparr>)
         | (Inl e, w) \<Rightarrow> (Inl e, s1\<lparr>ext := w\<rparr>))"

text \<open>
  The expression \<^verbatim>\<open>self.sts_client.assume_role_with_saml(**sts_call_vars)\<close>: a fresh client
  is built, then the endpoint is called with it and the request is logged.
\<close>

definition call_sts ::
  "('c, 'w) boto \<Rightarrow> config \<Rightarrow> sts_request \<Rightarrow> 'w world \<Rightarrow> (exn + token) \<times> 'w world" where
  "call_sts b cfg req s =
     (case sts_client b cfg s of
        (Inl e, s1) \<Rightarrow> (Inl e, s1)
      | (Inr client, s1) \<Rightarrow>
          (case assume_role_with_saml b client req (ext s1) of
             (r, w) \<Rightarrow> (r, s1\<lparr>calls := calls s1 @ [req], ext := w\<rparr>)))"

section \<open>The regular expression of the duration bound\<close>

text \<open>
  \<^verbatim>\<open>re.search("Member must have value less than or equal to ([0-9]{3,5})", msg)\<close>:
  the leftmost position where the phrase is followed by at least three digits; the group is
  greedy and takes at most five of them.
\<close>

definition bound_phrase :: string where
  "bound_phrase = ''Member must have value less than or equal to ''"

definition is_digit :: "char \<Rightarrow> bool" where
  "is_digit c = (c \<in> set ''0123456789'')"

definition match_here :: "string \<Rightarrow> string option" where
  "match_here s =
     (if take (length bound_phrase) s = bound_phrase
      then (let ds = takeWhile is_digit (take 5 (drop (length bound_phrase) s))
            in if 3 \<le> length ds then Some ds else None)
      else None)"

fun re_search :: "string \<Rightarrow> string option" where
  "re_search [] = None"
| "re_search (c # cs) =
     (case match_here (c # cs) of Some ds \<Rightarrow> Some ds | None \<Rightarrow> re_search cs)"

text \<open>\<^verbatim>\<open>int(m.group(1))\<close> on a string of ASCII digits.\<close>

definition digit_val :: "char \<Rightarrow> int" where
  "digit_val c = int (of_char c) - 48"

definition int_of_digits :: "string \<Rightarrow> int" where
  "int_of_digits ds = foldl (\<lambda>a c. 10 * a + digit_val c) 0 ds"

section \<open>\<^verbatim>\<open>Amazon.assume_role\<close>\<close>

text \<open>
  The method calls itself once, with \<^verbatim>\<open>auto_duration=False\<close>, when the probe is rejected
  with a bound. A probe that succeeds leaves the \<^verbatim>\<open>if\<close> statement, so control reaches the
  call after it.
\<close>

function assume_role ::
  "('c, 'w) boto \<Rightarrow> config \<Rightarrow> string \<Rightarrow> string \<Rightarrow> string \<Rightarrow> int option \<Rightarrow> bool \<Rightarrow> 'w world
     \<Rightarrow> (exn + token) \<times> 'w world" where
  "assume_role b cfg role principal_arn saml_assertion dur auto s =
     (let sts_call_vars = \<lparr>RoleArn = role, PrincipalArn = principal_arn,
                            SAMLAssertion = saml_assertion, DurationSeconds = None\<rparr>
      in if auto_duration cfg \<and> auto then
           (let vars = sts_call_vars\<lparr>DurationSeconds := Some (max_duration cfg)\<rparr>
            in case call_sts b cfg vars s of
                 (Inr res, s1) \<Rightarrow> call_sts b cfg vars s1
               | (Inl err, s1) \<Rightarrow>
                   (case err of
                      ClientError resp \<Rightarrow>
                        (case resp of
                           None \<Rightarrow> (Inl (AttributeError ''get''), s1)
                         | Some ei \<Rightarrow>
                             if Code ei = Some ''ValidationError'' then
                               (case Message ei of
                                  None \<Rightarrow> (Inl err, s1)
                                | Some msg \<Rightarrow>
                                    if msg = [] then (Inl err, s1)
                                    else (case re_search msg of
                                            None \<Rightarrow> (Inl err, s1)
                                          | Some g \<Rightarrow>
                                              if g \<noteq> [] then
                                                assume_role b cfg role principal_arn saml_assertion
                                                  (Some (int_of_digits g)) False s1
                                              else (Inl err, s1)))
                             else (Inl err, s1))
                    | _ \<Rightarrow> (Inl err, s1)))
         else (case dur of
                 None \<Rightarrow> call_sts b cfg sts_call_vars s
               | Some d \<Rightarrow>
                   if d \<noteq> 0 then call_sts b cfg (sts_call_vars\<lparr>DurationSeconds := Some d\<rparr>) s
                   else call_sts b cfg sts_call_vars s))"
  by pat_completeness auto

termination
  by (relation "measure (\<lambda>(b, cfg, role, principal_arn, saml, dur, auto, s). if auto then 1 else 0)")
     auto

declare assume_role.simps [simp del]

section \<open>The SAML document\<close>

text \<open>
  \<^verbatim>\<open>etree.fromstring\<close> is a parameter \<open>fromstring\<close>: it returns the root of the parsed tree
  or raises. A tree is an element with a tag, attributes and child nodes, or a text node.
\<close>

datatype node = Element string "(string \<times> string) list" "node list" | Text string

text \<open>\<^verbatim>\<open>doc.iter()\<close>: the element itself and the elements below it, in document order.\<close>

fun iter :: "node \<Rightarrow> node list" where
  "iter (Text t) = []"
| "iter (Element tg at ks) = Element tg at ks # concat (map iter ks)"

fun has_tag :: "string \<Rightarrow> node \<Rightarrow> bool" where
  "has_tag t (Element tg at ks) = (tg = t)"
| "has_tag t (Text x) = False"

definition iter_tag :: "string \<Rightarrow> node \<Rightarrow> node list" where
  "iter_tag t doc = filter (has_tag t) (iter doc)"

text \<open>\<^verbatim>\<open>element.get(name)\<close>: the attribute, \<open>None\<close> when the element has none of this name.\<close>

fun element_get :: "node \<Rightarrow> string \<Rightarrow> string option" where
  "element_get (Element tg at ks) name = map_of at name"
| "element_get (Text x) name = None"

subsection \<open>\<^verbatim>\<open>Amazon.is_valid_saml_assertion\<close>\<close>

text \<open>
  \<^verbatim>\<open>datetime.strptime\<close> is a parameter \<open>strptime\<close> (value, then format) that returns a time
  in microseconds or raises; called on \<^verbatim>\<open>None\<close> it raises \<^verbatim>\<open>TypeError\<close>. \<open>now\<close> is the value
  of \<^verbatim>\<open>datetime.utcnow()\<close>.
\<close>

type_synonym datetime = int

definition conditions_tag :: string where
  "conditions_tag = ''{urn:oasis:names:tc:SAML:2.0:assertion}Conditions''"

definition time_format :: string where
  "time_format = ''%Y-%m-%dT%H:%M:%S.%fZ''"

definition strptime_arg ::
  "(string \<Rightarrow> string \<Rightarrow> exn + datetime) \<Rightarrow> string option \<Rightarrow> exn + datetime" where
  "strptime_arg strptime v =
     (case v of None \<Rightarrow> Inl TypeError | Some x \<Rightarrow> strptime x time_format)"

text \<open>The body of the \<^verbatim>\<open>try\<close> block.\<close>

definition validity_window ::
  "(string \<Rightarrow> exn + node) \<Rightarrow> (string \<Rightarrow> string \<Rightarrow> exn + datetime) \<Rightarrow> datetime \<Rightarrow> string
     \<Rightarrow> exn + bool" where
  "validity_window fromstring strptime now saml_xml =
     (case fromstring saml_xml of
        Inl e \<Rightarrow> Inl e
      | Inr doc \<Rightarrow>
          (case iter_tag conditions_tag doc of
             [] \<Rightarrow> Inl IndexError
           | c # _ \<Rightarrow>
               (let not_before_str = element_get c ''NotBefore'';
                    not_on_or_after_str = element_get c ''NotOnOrAfter''
                in case strptime_arg strptime not_before_str of
                     Inl e \<Rightarrow> Inl e
                   | Inr not_before \<Rightarrow>
                       (case strptime_arg strptime not_on_or_after_str of
                          Inl e \<Rightarrow> Inl e
                        | Inr not_on_or_after \<Rightarrow>
                            if not_before \<le> now \<and> now < not_on_or_after then Inr True
                            else Inr False))))"

definition is_valid_saml_assertion ::
  "(string \<Rightarrow> exn + node) \<Rightarrow> (string \<Rightarrow> string \<Rightarrow> exn + datetime) \<Rightarrow> datetime \<Rightarrow> string option
     \<Rightarrow> bool" where
  "is_valid_saml_assertion fromstring strptime now saml_xml =
     (case saml_xml of
        None \<Rightarrow> False
      | Some x \<Rightarrow>
          (case validity_window fromstring strptime now x of
             Inl e \<Rightarrow> False
           | Inr v \<Rightarrow> v))"

subsection \<open>\<^verbatim>\<open>Amazon.roles\<close>\<close>

definition role_attribute :: string where
  "role_attribute = ''https://aws.amazon.com/SAML/Attributes/Role''"

text \<open>
  The XPath expression \<^verbatim>\<open>//*[@Name = "..."]//text()\<close>: the text nodes that lie below an
  element whose attribute \<^verbatim>\<open>Name\<close> is the role attribute, in document order, each once.
  \<open>inside\<close> tells whether an ancestor is such an element.
\<close>

fun xpath_text :: "bool \<Rightarrow> node \<Rightarrow> string list" where
  "xpath_text inside (Text t) = (if inside then [t] else [])"
| "xpath_text inside (Element tg at ks) =
     concat (map (xpath_text (inside \<or> map_of at ''Name'' = Some role_attribute)) ks)"

definition role_texts :: "node \<Rightarrow> string list" where
  "role_texts doc = xpath_text False doc"

text \<open>\<^verbatim>\<open>sub in x\<close> on strings.\<close>

fun contains :: "string \<Rightarrow> string \<Rightarrow> bool" where
  "contains sub [] = (sub = [])"
| "contains sub (c # cs) = (take (length sub) (c # cs) = sub \<or> contains sub cs)"

text \<open>\<^verbatim>\<open>x.split(sep)\<close> for a separator of one character: a split at every occurrence.\<close>

fun split :: "char \<Rightarrow> string \<Rightarrow> string list" where
  "split sep [] = [[]]"
| "split sep (c # cs) =
     (if c = sep then [] # split sep cs
      else (case split sep cs of
              [] \<Rightarrow> [[c]]
            | w # ws \<Rightarrow> (c # w) # ws))"

text \<open>The test for an IAM partition marker.\<close>

definition iam_marker :: "string \<Rightarrow> bool" where
  "iam_marker x = (contains ''arn:aws:iam:'' x \<or> contains ''arn:aws-us-gov:iam:'' x)"

text \<open>The loop over the text nodes; \<^verbatim>\<open>res[1]\<close> raises \<^verbatim>\<open>IndexError\<close> on a list of one field.\<close>

fun roles_loop :: "string list \<Rightarrow> (string \<rightharpoonup> string) \<Rightarrow> exn + (string \<rightharpoonup> string)" where
  "roles_loop [] roles = Inr roles"
| "roles_loop (x # xs) roles =
     (if iam_marker x then
        (case split CHR '','' x of
           k # v # _ \<Rightarrow> roles_loop xs (roles(k \<mapsto> v))
         | _ \<Rightarrow> Inl IndexError)
      else roles_loop xs roles)"

definition roles :: "(string \<Rightarrow> exn + node) \<Rightarrow> string option \<Rightarrow> exn + (string \<rightharpoonup> string)" where
  "roles fromstring saml_xml =
     (case saml_xml of
        None \<Rightarrow> Inl (AssertionError ''Cannot load roles without saml.'')
      | Some x \<Rightarrow>
          (case fromstring x of
             Inl e \<Rightarrow> Inl e
           | Inr doc \<Rightarrow> roles_loop (role_texts doc) Map.empty))"

section \<open>The broker object and its memoized token\<close>

text \<open>
  The attributes of an \<^verbatim>\<open>Amazon\<close> object; \<open>token_memo\<close> is \<^verbatim>\<open>self.__token\<close>. The attribute
  \<^verbatim>\<open>self.__roles\<close> is written by the constructor and never read.
\<close>

record amazon =
  config :: config
  saml_xml :: "string option"
  token_memo :: "token option"

text \<open>\<^verbatim>\<open>Amazon.__init__\<close>; an empty dictionary as token cache is falsy.\<close>

definition init :: "config \<Rightarrow> string option \<Rightarrow> amazon" where
  "init cfg xml =
     \<lparr>config = cfg, saml_xml = xml,
      token_memo =
        (case token_cache cfg of
           None \<Rightarrow> None
         | Some tc \<Rightarrow> if tc \<noteq> [] then Some [(''Credentials'', tc)] else None)\<rparr>"

text \<open>\<^verbatim>\<open>Amazon.base64_encoded_saml\<close>; \<^verbatim>\<open>b64encode(None)\<close> raises \<^verbatim>\<open>TypeError\<close>.\<close>

definition base64_encoded_saml :: "('c, 'w) boto \<Rightarrow> amazon \<Rightarrow> exn + string" where
  "base64_encoded_saml b self =
     (case saml_xml self of None \<Rightarrow> Inl TypeError | Some x \<Rightarrow> Inr (b64encode b x))"

text \<open>
  \<^verbatim>\<open>Amazon.token\<close>: the result, the object and the state after the access. The arguments
  of \<^verbatim>\<open>assume_role\<close> are evaluated before the call.
\<close>

definition token ::
  "('c, 'w) boto \<Rightarrow> amazon \<Rightarrow> 'w world \<Rightarrow> (exn + token) \<times> amazon \<times> 'w world" where
  "token b self s =
     (case token_memo self of
        Some t \<Rightarrow> (Inr t, self, s)
      | None \<Rightarrow>
          (case base64_encoded_saml b self of
             Inl e \<Rightarrow> (Inl e, self, s)
           | Inr saml \<Rightarrow>
               (case assume_role b (config self) (role_arn (config self)) (provider (config self))
                       saml (duration (config self)) True s of
                  (Inl e, s1) \<Rightarrow> (Inl e, self, s1)
                | (Inr t, s1) \<Rightarrow> (Inr t, self\<lparr>token_memo := Some t\<rparr>, s1))))"

text \<open>\<^verbatim>\<open>t["Credentials"][key]\<close>; a missing key raises \<^verbatim>\<open>KeyError\<close>.\<close>

definition credential_field :: "token \<Rightarrow> string \<Rightarrow> exn + pyval" where
  "credential_field t key =
     (case map_of t ''Credentials'' of
        None \<Rightarrow> Inl (KeyError ''Credentials'')
      | Some c \<Rightarrow> (case map_of c key of None \<Rightarrow> Inl (KeyError key) | Some v \<Rightarrow> Inr v))"

text \<open>The accessors read one field of \<^verbatim>\<open>self.token\<close>.\<close>

definition token_field ::
  "string \<Rightarrow> ('c, 'w) boto \<Rightarrow> amazon \<Rightarrow> 'w world \<Rightarrow> (exn + pyval) \<times> amazon \<times> 'w world" where
  "token_field key b self s =
     (case token b self s of
        (Inl e, self1, s1) \<Rightarrow> (Inl e, self1, s1)
      | (Inr t, self1, s1) \<Rightarrow> (credential_field t key, self1, s1))"

definition access_key_id ::
  "('c, 'w) boto \<Rightarrow> amazon \<Rightarrow> 'w world \<Rightarrow> (exn + pyval) \<times> amazon \<times> 'w world" where
  "access_key_id = token_field ''AccessKeyId''"

definition secret_access_key ::
  "('c, 'w) boto \<Rightarrow> amazon \<Rightarrow> 'w world \<Rightarrow> (exn + pyval) \<times> amazon \<times> 'w world" where
  "secret_access_key = token_field ''SecretAccessKey''"

definition session_token ::
  "('c, 'w) boto \<Rightarrow> amazon \<Rightarrow> 'w world \<Rightarrow> (exn + pyval) \<times> amazon \<times> 'w world" where
  "session_token = token_field ''SessionToken''"

definition expiration ::
  "('c, 'w) boto \<Rightarrow> amazon \<Rightarrow> 'w world \<Rightarrow> (exn + pyval) \<times> amazon \<times> 'w world" where
  "expiration = token_field ''Expiration''"

section \<open>\<^verbatim>\<open>Amazon.resolve_aws_aliases\<close>\<close>

text \<open>
  The library calls of one alias lookup, as parameters: \<^verbatim>\<open>boto3.session.Session\<close>, the
  unsigned \<^verbatim>\<open>sts\<close> client of the session and its \<^verbatim>\<open>assume_role_with_saml\<close>, the \<^verbatim>\<open>iam\<close>
  client built from three credential fields, and the entry \<^verbatim>\<open>"AccountAliases"\<close> of the
  answer of \<^verbatim>\<open>list_account_aliases\<close>. Each returns or raises.
\<close>

record ('ses, 'sts, 'iam) alias_api =
  Session :: "string option \<Rightarrow> exn + 'ses"
  unsigned_sts_client :: "'ses \<Rightarrow> exn + 'sts"
  unsigned_assume_role_with_saml :: "'sts \<Rightarrow> sts_request \<Rightarrow> exn + token"
  iam_client :: "'ses \<Rightarrow> pyval \<Rightarrow> pyval \<Rightarrow> pyval \<Rightarrow> exn + 'iam"
  list_account_aliases :: "'iam \<Rightarrow> exn + string list"

text \<open>Sequencing of steps that can raise.\<close>

definition and_then :: "exn + 'a \<Rightarrow> ('a \<Rightarrow> exn + 'b) \<Rightarrow> exn + 'b" where
  "and_then r f = (case r of Inl e \<Rightarrow> Inl e | Inr v \<Rightarrow> f v)"

text \<open>\<^verbatim>\<open>role.split(":")[4]\<close>; the index raises \<^verbatim>\<open>IndexError\<close> on fewer than five fields.\<close>

definition account_field :: "string \<Rightarrow> exn + string" where
  "account_field role =
     (let fields = split CHR '':'' role
      in if 4 < length fields then Inr (fields ! 4) else Inl IndexError)"

text \<open>The \<^verbatim>\<open>try\<close> block of \<^verbatim>\<open>resolve_aws_alias\<close> up to the value of \<^verbatim>\<open>account_alias\<close>.\<close>

definition account_alias ::
  "('ses, 'sts, 'iam) alias_api \<Rightarrow> ('c, 'w) boto \<Rightarrow> amazon \<Rightarrow> string \<Rightarrow> string \<Rightarrow> exn + string" where
  "account_alias api b self role principal_arn =
     and_then (Session api (region (config self))) (\<lambda>session.
     and_then (unsigned_sts_client api session) (\<lambda>sts.
     and_then (base64_encoded_saml b self) (\<lambda>assertion.
     and_then (unsigned_assume_role_with_saml api sts
                 \<lparr>RoleArn = role, PrincipalArn = principal_arn, SAMLAssertion = assertion,
                  DurationSeconds = None\<rparr>) (\<lambda>saml.
     and_then (credential_field saml ''AccessKeyId'') (\<lambda>key_id.
     and_then (credential_field saml ''SecretAccessKey'') (\<lambda>secret.
     and_then (credential_field saml ''SessionToken'') (\<lambda>session_tok.
     and_then (iam_client api session key_id secret session_tok) (\<lambda>iam.
     and_then (list_account_aliases api iam) (\<lambda>aliases.
       (case aliases of [] \<Rightarrow> Inl IndexError | a # _ \<Rightarrow> Inr a))))))))))"

text \<open>
  The thread function \<^verbatim>\<open>resolve_aws_alias\<close>: the dictionary after the thread's write, or
  the exception that ends the thread when the handler itself raises.
\<close>

definition resolve_aws_alias ::
  "('ses, 'sts, 'iam) alias_api \<Rightarrow> ('c, 'w) boto \<Rightarrow> amazon \<Rightarrow> string \<Rightarrow> string
     \<Rightarrow> (string \<rightharpoonup> string) \<Rightarrow> exn + (string \<rightharpoonup> string)" where
  "resolve_aws_alias api b self role principal_arn aws_dict =
     (case and_then (account_alias api b self role principal_arn) (\<lambda>alias.
           and_then (account_field role) (\<lambda>k. Inr (aws_dict(k \<mapsto> alias)))) of
        Inr d \<Rightarrow> Inr d
      | Inl err \<Rightarrow>
          and_then (account_field role) (\<lambda>v.
          and_then (account_field role) (\<lambda>k. Inr (aws_dict(k \<mapsto> v)))))"

text \<open>
  The threads share one dictionary and each writes at most once, so the dictionary returned
  is the one built by the writes in the order in which the threads perform them. \<open>order\<close>
  is the list of the items of \<^verbatim>\<open>roles\<close> in that order: any arrangement of the items. An
  exception that ends a thread does not reach the caller, which only joins the threads.
\<close>

fun run_threads ::
  "('ses, 'sts, 'iam) alias_api \<Rightarrow> ('c, 'w) boto \<Rightarrow> amazon \<Rightarrow> (string \<times> string) list
     \<Rightarrow> (string \<rightharpoonup> string) \<Rightarrow> (string \<rightharpoonup> string)" where
  "run_threads api b self [] aws_dict = aws_dict"
| "run_threads api b self ((role, principal_arn) # rest) aws_dict =
     run_threads api b self rest
       (case resolve_aws_alias api b self role principal_arn aws_dict of
          Inr d \<Rightarrow> d
        | Inl e \<Rightarrow> aws_dict)"

definition resolve_aws_aliases ::
  "('ses, 'sts, 'iam) alias_api \<Rightarrow> ('c, 'w) boto \<Rightarrow> amazon \<Rightarrow> (string \<times> string) list
     \<Rightarrow> (string \<rightharpoonup> string)" where
  "resolve_aws_aliases api b self order = run_threads api b self order Map.empty"

section \<open>Notions used in the statements\<close>

text \<open>The keyword arguments of one endpoint call.\<close>

definition request :: "string \<Rightarrow> string \<Rightarrow> string \<Rightarrow> int option \<Rightarrow> sts_request" where
  "request role principal_arn saml d =
     \<lparr>RoleArn = role, PrincipalArn = principal_arn, SAMLAssertion = saml, DurationSeconds = d\<rparr>"

text \<open>
  The decision of the \<^verbatim>\<open>except ClientError\<close> handler, read off the handler: the bound it
  passes to the second attempt, \<open>None\<close> when it re-raises.
\<close>

definition narrowing_bound :: "exn \<Rightarrow> int option" where
  "narrowing_bound err =
     (case err of
        ClientError (Some ei) \<Rightarrow>
          (if Code ei = Some ''ValidationError'' then
             (case Message ei of
                None \<Rightarrow> None
              | Some msg \<Rightarrow> map_option int_of_digits (re_search msg))
           else None)
      | _ \<Rightarrow> None)"

text \<open>
  The fields of a text at its commas: the text before the first comma, and the text between
  the first comma and the second one (or the end).
\<close>

definition first_field :: "string \<Rightarrow> string" where
  "first_field x = takeWhile (\<lambda>c. c \<noteq> CHR '','') x"

definition second_field :: "string \<Rightarrow> string" where
  "second_field x =
     takeWhile (\<lambda>c. c \<noteq> CHR '','') (drop 1 (dropWhile (\<lambda>c. c \<noteq> CHR '','') x))"

text \<open>
  A text split once at its first comma, as the specification of the role extractor words it:
  the first field, and all that follows the first comma.
\<close>

definition split_once :: "string \<Rightarrow> string \<times> string" where
  "split_once x =
     (takeWhile (\<lambda>c. c \<noteq> CHR '','') x, drop 1 (dropWhile (\<lambda>c. c \<noteq> CHR '','') x))"



section \<open>Concrete endpoints and configurations\<close>

text \<open>
  An endpoint that numbers its answers: the state outside the process is the number of
  calls answered so far, and the token of call \<open>k\<close> carries \<open>k\<close> as its expiration, so the
  tokens of different calls differ. \<open>reject\<close> decides which calls are refused.
\<close>

definition example_token :: "nat \<Rightarrow> token" where
  "example_token k =
     [(''Credentials'',
       [(''AccessKeyId'', Str ''AK''), (''SecretAccessKey'', Str ''SK''),
        (''SessionToken'', Str ''TOK''), (''Expiration'', Datetime (int k))])]"

definition validation_error :: "string \<Rightarrow> exn" where
  "validation_error n =
     ClientError (Some (ErrorInfo (Some ''ValidationError'')
       (Some (''1 validation error detected: Value 43200 at durationSeconds failed to satisfy constraint: Member must have value less than or equal to '' @ n))))"

definition example_boto :: "(sts_request \<Rightarrow> nat \<Rightarrow> exn option) \<Rightarrow> (unit, nat) boto" where
  "example_boto reject =
     \<lparr>boto3_client = (\<lambda>env r k. (Inr (), k)),
      assume_role_with_saml =
        (\<lambda>c req k. (case reject req k of Some e \<Rightarrow> Inl e | None \<Rightarrow> Inr (example_token k), Suc k)),
      b64encode = (\<lambda>x. x)\<rparr>"

definition example_config :: config where
  "example_config =
     \<lparr>region = Some ''us-east-1'', role_arn = ''arn:aws:iam::111111111111:role/Foo'',
      provider = ''arn:aws:iam::111111111111:saml-provider/Bar'', duration = None,
      auto_duration = True, max_duration = 43200, token_cache = None\<rparr>"

definition start :: "nat world" where
  "start = \<lparr>environ = Map.empty, calls = [], ext = 0\<rparr>"

text \<open>Endpoints: one that accepts at most 28800 seconds, one that refuses its first call.\<close>

definition limit_28800 :: "sts_request \<Rightarrow> nat \<Rightarrow> exn option" where
  "limit_28800 req k =
     (case DurationSeconds req of
        None \<Rightarrow> None
      | Some d \<Rightarrow> if 28800 < d then Some (validation_error ''28800'') else None)"

definition reject_first :: "exn \<Rightarrow> sts_request \<Rightarrow> nat \<Rightarrow> exn option" where
  "reject_first e req k = (if k = 0 then Some e else None)"

definition unrelated_error :: exn where
  "unrelated_error =
     ClientError (Some (ErrorInfo (Some ''ValidationError'')
       (Some ''Value at roleArn failed to satisfy constraint: Member must have length greater than or equal to 20'')))"


text \<open>
  A SAML response with one assertion: a conditions element with the two bounds of the
  validity window, and a role attribute with one value element for each of the texts.
\<close>

definition example_document :: "string \<Rightarrow> string \<Rightarrow> string list \<Rightarrow> node" where
  "example_document not_before not_on_or_after texts =
     Element ''{urn:oasis:names:tc:SAML:2.0:protocol}Response'' []
       [Element ''{urn:oasis:names:tc:SAML:2.0:assertion}Assertion'' [(''ID'', ''_1'')]
          [Element ''{urn:oasis:names:tc:SAML:2.0:assertion}Conditions''
             [(''NotBefore'', not_before), (''NotOnOrAfter'', not_on_or_after)] [],
           Element ''{urn:oasis:names:tc:SAML:2.0:assertion}AttributeStatement'' []
             [Element ''{urn:oasis:names:tc:SAML:2.0:assertion}Attribute''
                [(''Name'', ''https://aws.amazon.com/SAML/Attributes/Role'')]
                (map (\<lambda>t. Element ''{urn:oasis:names:tc:SAML:2.0:assertion}AttributeValue'' []
                              [Text t]) texts)]]]"

text \<open>
  A parser that knows one document, and a \<^verbatim>\<open>strptime\<close> that knows three time stamps, in
  microseconds from the first of them.
\<close>

definition example_fromstring :: "node \<Rightarrow> string \<Rightarrow> exn + node" where
  "example_fromstring doc x =
     (if x = ''<saml/>'' then Inr doc else Inl (OtherError ''XMLSyntaxError''))"

definition example_strptime :: "string \<Rightarrow> string \<Rightarrow> exn + datetime" where
  "example_strptime v fmt =
     (case map_of [(''2024-01-01T00:00:00.000000Z'', 0),
                   (''2024-01-01T00:05:00.000000Z'', 300000000),
                   (''2024-01-01T01:00:00.000000Z'', 3600000000)] v of
        None \<Rightarrow> Inl (OtherError ''ValueError'')
      | Some t \<Rightarrow> Inr t)"

text \<open>
  The endpoint that accepts every call, a broker built without a token cache, the same
  broker and the state after its first access to the token, and a configuration with a
  token cache.
\<close>

definition accept_all :: "(unit, nat) boto" where
  "accept_all = example_boto (\<lambda>req k. None)"

definition fresh_broker :: amazon where
  "fresh_broker = init example_config (Some ''<saml/>'')"

definition materialized_broker :: amazon where
  "materialized_broker = fresh_broker\<lparr>token_memo := Some (example_token 1)\<rparr>"

definition after_first_access :: "nat world" where
  "after_first_access =
     start\<lparr>calls := [request ''arn:aws:iam::111111111111:role/Foo''
                        ''arn:aws:iam::111111111111:saml-provider/Bar'' ''<saml/>'' (Some 43200),
                      request ''arn:aws:iam::111111111111:role/Foo''
                        ''arn:aws:iam::111111111111:saml-provider/Bar'' ''<saml/>'' (Some 43200)],
           ext := 2\<rparr>"

definition cached_config :: config where
  "cached_config = example_config\<lparr>token_cache := Some [(''AccessKeyId'', Str ''CACHED'')]\<rparr>"

text \<open>
  A library whose client constructor fails for the profile that \<^verbatim>\<open>AWS_DEFAULT_PROFILE\<close>
  names, and an environment that selects one profile in \<^verbatim>\<open>AWS_PROFILE\<close> and names a
  missing one in \<^verbatim>\<open>AWS_DEFAULT_PROFILE\<close>.
\<close>

definition profile_boto :: "(unit, nat) boto" where
  "profile_boto =
     \<lparr>boto3_client =
        (\<lambda>env r k.
           (case env ''AWS_DEFAULT_PROFILE'' of
              None \<Rightarrow> Inr ()
            | Some p \<Rightarrow> Inl (ProfileNotFound (''The config profile ('' @ p @ '') could not be found'')),
            k)),
      assume_role_with_saml = (\<lambda>c req k. (Inr (example_token k), Suc k)),
      b64encode = (\<lambda>x. x)\<rparr>"

definition profile_world :: "nat world" where
  "profile_world =
     \<lparr>environ = [''AWS_PROFILE'' \<mapsto> ''dev'', ''AWS_DEFAULT_PROFILE'' \<mapsto> ''missing''],
      calls = [], ext = 0\<rparr>"




definition one_client_boto :: "(sts_request \<Rightarrow> nat \<Rightarrow> exn option) \<Rightarrow> (unit, nat) boto" where
  "one_client_boto reject =
     \<lparr>boto3_client =
        (\<lambda>env r k. (if k = 0 then Inr () else Inl (OtherError ''EndpointConnectionError''), k)),
      assume_role_with_saml =
        (\<lambda>c req k. (case reject req k of Some e \<Rightarrow> Inl e | None \<Rightarrow> Inr (example_token k), Suc k)),
      b64encode = (\<lambda>x. x)\<rparr>"

section \<open>Properties of the endpoint calls\<close>

lemma sts_client_calls: "sts_client b cfg s = (r, s1) \<Longrightarrow> calls s1 = calls s"
  by (auto simp: sts_client_def Let_def split: option.splits prod.splits sum.splits exn.splits)

lemma call_sts_client_fails:
  "sts_client b cfg s = (Inl e, s0) \<Longrightarrow> call_sts b cfg req s = (Inl e, s0)"
  by (simp add: call_sts_def)

lemma call_sts_called:
  "sts_client b cfg s = (Inr c, s0) \<Longrightarrow> assume_role_with_saml b c req (ext s0) = (r, w)
    \<Longrightarrow> call_sts b cfg req s = (r, s0\<lparr>calls := calls s @ [req], ext := w\<rparr>)"
  by (simp add: call_sts_def sts_client_calls)

lemma call_sts_log:
  "call_sts b cfg req s = (r, s') \<Longrightarrow> calls s' = calls s \<or> calls s' = calls s @ [req]"
  by (auto simp: call_sts_def sts_client_calls split: prod.splits sum.splits)

lemma call_sts_grows:
  "\<exists>new. calls (snd (call_sts b cfg req s)) = calls s @ new \<and> length new \<le> 1"
  using call_sts_log [of b cfg req s "fst (call_sts b cfg req s)" "snd (call_sts b cfg req s)"]
  by auto

lemma re_search_nonempty: "re_search msg = Some g \<Longrightarrow> g \<noteq> []"
  by (induction msg) (auto simp: match_here_def Let_def split: option.splits if_splits)

subsection \<open>The paths through \<^verbatim>\<open>assume_role\<close>\<close>

lemma assume_role_fixed:
  "\<not> (auto_duration cfg \<and> auto) \<Longrightarrow>
   assume_role b cfg role pr saml dur auto s =
     call_sts b cfg (request role pr saml (if dur = Some 0 then None else dur)) s"
  by (auto simp: assume_role.simps request_def Let_def split: option.splits)

lemma assume_role_probe_ok:
  "auto_duration cfg \<Longrightarrow>
   call_sts b cfg (request role pr saml (Some (max_duration cfg))) s = (Inr t, s1) \<Longrightarrow>
   assume_role b cfg role pr saml dur True s =
     call_sts b cfg (request role pr saml (Some (max_duration cfg))) s1"
  by (simp add: assume_role.simps request_def Let_def)

lemma assume_role_probe_narrow:
  "auto_duration cfg \<Longrightarrow>
   call_sts b cfg (request role pr saml (Some (max_duration cfg))) s = (Inl err, s1) \<Longrightarrow>
   narrowing_bound err = Some n \<Longrightarrow>
   assume_role b cfg role pr saml dur True s =
     call_sts b cfg (request role pr saml (if n = 0 then None else Some n)) s1"
  by (auto simp: assume_role.simps[of _ _ _ _ _ _ True] assume_role_fixed request_def
        narrowing_bound_def Let_def
      dest: re_search_nonempty split: option.splits exn.splits if_splits)

lemma assume_role_probe_raise:
  "auto_duration cfg \<Longrightarrow>
   call_sts b cfg (request role pr saml (Some (max_duration cfg))) s = (Inl err, s1) \<Longrightarrow>
   narrowing_bound err = None \<Longrightarrow> err \<noteq> ClientError None \<Longrightarrow>
   assume_role b cfg role pr saml dur True s = (Inl err, s1)"
  by (auto simp: assume_role.simps[of _ _ _ _ _ _ True] request_def narrowing_bound_def Let_def
      dest: re_search_nonempty split: option.splits exn.splits if_splits)

lemma assume_role_probe_no_error_entry:
  "auto_duration cfg \<Longrightarrow>
   call_sts b cfg (request role pr saml (Some (max_duration cfg))) s
     = (Inl (ClientError None), s1) \<Longrightarrow>
   assume_role b cfg role pr saml dur True s = (Inl (AttributeError ''get''), s1)"
  by (simp add: assume_role.simps request_def Let_def)

subsection \<open>Evaluation on the concrete endpoints\<close>

lemma call_sts_example:
  "call_sts (example_boto reject) cfg req s =
     (case reject req (ext s) of Some e \<Rightarrow> Inl e | None \<Rightarrow> Inr (example_token (ext s)),
      s\<lparr>calls := calls s @ [req], ext := Suc (ext s)\<rparr>)"
  if "environ s ''AWS_PROFILE'' = None"
  using that by (simp add: call_sts_def sts_client_def example_boto_def)

lemma narrowing_bound_3600: "narrowing_bound (validation_error ''3600'') = Some 3600"
  by code_simp

lemma narrowing_bound_28800: "narrowing_bound (validation_error ''28800'') = Some 28800"
  by code_simp

text \<open>
  C2. Every invocation of \<^verbatim>\<open>assume_role\<close> appends at most two requests to the log of
  endpoint calls. When the probe is rejected with a bound, the outcome is that of the single
  narrowed attempt: if that attempt fails with any error, this error is the result, and the
  log holds at most the one request of that attempt after the probe's.
\<close>

theorem assume_role_call_bound:
  "(\<exists>new. calls (snd (assume_role b cfg role pr saml dur auto s)) = calls s @ new \<and>
          length new \<le> 2) \<and>
   (auto_duration cfg \<longrightarrow>
    call_sts b cfg (request role pr saml (Some (max_duration cfg))) s = (Inl err, s1) \<longrightarrow>
    narrowing_bound err = Some n \<longrightarrow>
    call_sts b cfg (request role pr saml (if n = 0 then None else Some n)) s1 = (Inl err2, s2) \<longrightarrow>
    assume_role b cfg role pr saml dur True s = (Inl err2, s2) \<and>
    (calls s2 = calls s1 \<or>
     calls s2 = calls s1 @ [request role pr saml (if n = 0 then None else Some n)]))"
proof -
  let ?probe = "request role pr saml (Some (max_duration cfg))"
  have total: "\<exists>new. calls (snd (assume_role b cfg role pr saml dur auto s)) = calls s @ new \<and>
      length new \<le> 2"
  proof (cases "auto_duration cfg \<and> auto")
    case False
    then show ?thesis
      using call_sts_grows [of b cfg _ s] by (fastforce simp: assume_role_fixed)
  next
    case True
    obtain r1 s1' where p: "call_sts b cfg ?probe s = (r1, s1')"
      by (cases "call_sts b cfg ?probe s")
    obtain n1 where n1: "calls s1' = calls s @ n1" "length n1 \<le> 1"
      using call_sts_grows [of b cfg ?probe s] p by auto
    show ?thesis
    proof (cases r1)
      case (Inr t)
      obtain n2 where "calls (snd (call_sts b cfg ?probe s1')) = calls s1' @ n2" "length n2 \<le> 1"
        using call_sts_grows [of b cfg ?probe s1'] by auto
      with n1 True p Inr show ?thesis
        by (auto simp: assume_role_probe_ok)
    next
      case (Inl e)
      show ?thesis
      proof (cases "narrowing_bound e")
        case None
        with n1 True p Inl show ?thesis
          by (cases "e = ClientError None")
             (auto simp: assume_role_probe_raise assume_role_probe_no_error_entry)
      next
        case (Some k)
        let ?retry = "request role pr saml (if k = 0 then None else Some k)"
        obtain n2 where "calls (snd (call_sts b cfg ?retry s1')) = calls s1' @ n2" "length n2 \<le> 1"
          using call_sts_grows [of b cfg ?retry s1'] by auto
        with n1 True p Inl Some show ?thesis
          by (auto simp: assume_role_probe_narrow)
      qed
    qed
  qed
  have retry: "assume_role b cfg role pr saml dur True s = (Inl err2, s2) \<and>
      (calls s2 = calls s1 \<or>
       calls s2 = calls s1 @ [request role pr saml (if n = 0 then None else Some n)])"
    if "auto_duration cfg" "call_sts b cfg ?probe s = (Inl err, s1)" "narrowing_bound err = Some n"
       "call_sts b cfg (request role pr saml (if n = 0 then None else Some n)) s1 = (Inl err2, s2)"
    using that call_sts_log [OF that(4)] by (simp add: assume_role_probe_narrow)
  from total retry show ?thesis by blast
qed

text \<open>
  The theorem at an endpoint that refuses every call with the bound 3600: the narrowed
  attempt is refused with a bound again, and this second refusal is the result after two calls.
\<close>

theorem assume_role_call_bound_witness:
  "(\<exists>new. calls (snd (assume_role (example_boto (\<lambda>req k. Some (validation_error ''3600'')))
        example_config ''R'' ''P'' ''A'' None True start)) = calls start @ new \<and> length new \<le> 2) \<and>
   assume_role (example_boto (\<lambda>req k. Some (validation_error ''3600''))) example_config
       ''R'' ''P'' ''A'' None True start
     = (Inl (validation_error ''3600''),
        start\<lparr>calls := [request ''R'' ''P'' ''A'' (Some 43200), request ''R'' ''P'' ''A'' (Some 3600)],
              ext := 2\<rparr>)"
  using assume_role_call_bound [of "example_boto (\<lambda>req k. Some (validation_error ''3600''))"
      example_config "''R''" "''P''" "''A''" None True start "validation_error ''3600''"
      "start\<lparr>calls := [request ''R'' ''P'' ''A'' (Some 43200)], ext := 1\<rparr>" 3600
      "validation_error ''3600''"
      "start\<lparr>calls := [request ''R'' ''P'' ''A'' (Some 43200), request ''R'' ''P'' ''A'' (Some 3600)],
              ext := 2\<rparr>"]
  by (simp add: call_sts_example narrowing_bound_3600 example_config_def start_def)

section \<open>The regular expression\<close>
















section \<open>The adaptive negotiation\<close>

lemma sts_client_example:
  "environ s ''AWS_PROFILE'' = None \<Longrightarrow> sts_client (example_boto reject) cfg s = (Inr (), s)"
  by (simp add: sts_client_def example_boto_def)

lemma endpoint_example:
  "assume_role_with_saml (example_boto reject) c req k =
     (case reject req k of Some e \<Rightarrow> Inl e | None \<Rightarrow> Inr (example_token k), Suc k)"
  by (simp add: example_boto_def)

lemma example_config_auto:
  "auto_duration example_config" "max_duration example_config = 43200"
  by (simp_all add: example_config_def)

lemma start_simps:
  "environ start ''AWS_PROFILE'' = None" "ext start = 0" "calls start = []"
  "environ (start\<lparr>calls := cs, ext := k\<rparr>) ''AWS_PROFILE'' = None"
  by (simp_all add: start_def)

lemma re_search_28800:
  "re_search ''1 validation error detected: Value 43200 at durationSeconds failed to satisfy constraint: Member must have value less than or equal to 28800'' = Some ''28800''"
  by code_simp

lemma int_28800: "int_of_digits ''28800'' = 28800"
  by code_simp

lemma nb_unrelated: "narrowing_bound unrelated_error = None"
  by code_simp

lemma nb_99: "narrowing_bound (validation_error ''99'') = None"
  by code_simp




lemma re_search_unrelated:
  "re_search ''Value at roleArn failed to satisfy constraint: Member must have length greater than or equal to 20'' = None"
  by code_simp

lemma no_bound_narrowing:
  assumes "\<forall>ei. err = ClientError (Some ei) \<longrightarrow>
             Code ei \<noteq> Some ''ValidationError'' \<or> Message ei = None \<or>
             (\<exists>msg. Message ei = Some msg \<and> re_search msg = None)"
  shows "narrowing_bound err = None"
  using assms by (auto simp: narrowing_bound_def split: exn.splits option.splits)

text \<open>
  C1. The claim: when the probe succeeds, its credential is returned after exactly one
  endpoint call. The method does otherwise: on an endpoint that accepts every call it sends
  the probe's request twice and returns the token of the second call.
\<close>

theorem assume_role_probe_success_calls_twice:
  "assume_role (example_boto (\<lambda>req k. None)) example_config ''R'' ''P'' ''A'' None True start
     = (Inr (example_token 1),
        start\<lparr>calls := [request ''R'' ''P'' ''A'' (Some 43200), request ''R'' ''P'' ''A'' (Some 43200)],
              ext := 2\<rparr>)"
  by (simp add: assume_role.simps call_sts_example example_config_def start_def request_def Let_def)

text \<open>
  C3, as amended. Adaptive negotiation is enabled and the endpoint refuses the probe with
  \<open>err\<close>. If \<open>err\<close> is a \<^verbatim>\<open>ClientError\<close> with code \<^verbatim>\<open>ValidationError\<close> in whose message the
  regular expression finds the digits \<open>ds\<close>, the method makes one second attempt with a freshly
  built client. When the client is built, exactly one further endpoint call is made, with
  \<^verbatim>\<open>DurationSeconds\<close> the number written by \<open>ds\<close> (and without \<^verbatim>\<open>DurationSeconds\<close> when that
  number is 0), and the outcome of that call is returned: two calls in all. When building the
  client raises, that error is raised and the probe stays the only call. If \<open>err\<close> is no
  such error, and not a \<^verbatim>\<open>ClientError\<close> without an \<^verbatim>\<open>Error\<close> entry, the probe is the only
  call and \<open>err\<close> is raised unchanged.
\<close>

theorem assume_role_probe_rejected:
  assumes auto: "auto_duration cfg"
    and client: "sts_client b cfg s = (Inr c, s0)"
    and probe: "assume_role_with_saml b c (request role pr saml (Some (max_duration cfg))) (ext s0)
                  = (Inl err, w)"
  shows
    "(\<forall>msg ds n.
        err = ClientError (Some (ErrorInfo (Some ''ValidationError'') (Some msg))) \<longrightarrow>
        re_search msg = Some ds \<longrightarrow>
        n = (if int_of_digits ds = 0 then None else Some (int_of_digits ds)) \<longrightarrow>
        (\<forall>c2 s2 r2 w2.
           sts_client b cfg
             (s0\<lparr>calls := calls s @ [request role pr saml (Some (max_duration cfg))], ext := w\<rparr>)
             = (Inr c2, s2) \<longrightarrow>
           assume_role_with_saml b c2 (request role pr saml n) (ext s2) = (r2, w2) \<longrightarrow>
           assume_role b cfg role pr saml dur True s =
             (r2, s2\<lparr>calls := calls s @ [request role pr saml (Some (max_duration cfg)),
                                         request role pr saml n],
                     ext := w2\<rparr>)) \<and>
        (\<forall>e s2.
           sts_client b cfg
             (s0\<lparr>calls := calls s @ [request role pr saml (Some (max_duration cfg))], ext := w\<rparr>)
             = (Inl e, s2) \<longrightarrow>
           assume_role b cfg role pr saml dur True s = (Inl e, s2) \<and>
           calls s2 = calls s @ [request role pr saml (Some (max_duration cfg))])) \<and>
     ((\<forall>ei. err = ClientError (Some ei) \<longrightarrow>
          Code ei \<noteq> Some ''ValidationError'' \<or> Message ei = None \<or>
          (\<exists>msg. Message ei = Some msg \<and> re_search msg = None)) \<longrightarrow>
      err \<noteq> ClientError None \<longrightarrow>
      assume_role b cfg role pr saml dur True s =
        (Inl err, s0\<lparr>calls := calls s @ [request role pr saml (Some (max_duration cfg))],
                     ext := w\<rparr>))"
proof -
  let ?probe = "request role pr saml (Some (max_duration cfg))"
  let ?s1 = "s0\<lparr>calls := calls s @ [?probe], ext := w\<rparr>"
  have p: "call_sts b cfg ?probe s = (Inl err, ?s1)"
    using call_sts_called [OF client probe] .
  have retry: "assume_role b cfg role pr saml dur True s = call_sts b cfg (request role pr saml n) ?s1"
    if e: "err = ClientError (Some (ErrorInfo (Some ''ValidationError'') (Some msg)))"
      and m: "re_search msg = Some ds"
      and n: "n = (if int_of_digits ds = 0 then None else Some (int_of_digits ds))"
    for msg ds n
  proof -
    have "narrowing_bound err = Some (int_of_digits ds)"
      using e m by (simp add: narrowing_bound_def)
    from assume_role_probe_narrow [OF auto p this] show ?thesis
      using n by simp
  qed
  have called: "assume_role b cfg role pr saml dur True s =
      (r2, s2\<lparr>calls := calls s @ [?probe, request role pr saml n], ext := w2\<rparr>)"
    if "err = ClientError (Some (ErrorInfo (Some ''ValidationError'') (Some msg)))"
      "re_search msg = Some ds"
      "n = (if int_of_digits ds = 0 then None else Some (int_of_digits ds))"
      and c2: "sts_client b cfg ?s1 = (Inr c2, s2)"
      and r2: "assume_role_with_saml b c2 (request role pr saml n) (ext s2) = (r2, w2)"
    for msg ds n c2 s2 r2 w2
    using retry [OF that(1,2,3)] call_sts_called [OF c2 r2] by simp
  have not_built: "assume_role b cfg role pr saml dur True s = (Inl e, s2) \<and>
      calls s2 = calls s @ [?probe]"
    if "err = ClientError (Some (ErrorInfo (Some ''ValidationError'') (Some msg)))"
      "re_search msg = Some ds"
      "n = (if int_of_digits ds = 0 then None else Some (int_of_digits ds))"
      and c2: "sts_client b cfg ?s1 = (Inl e, s2)"
    for msg ds n e s2
    using retry [OF that(1,2,3)] call_sts_client_fails [OF c2] sts_client_calls [OF c2] by simp
  have other: "assume_role b cfg role pr saml dur True s = (Inl err, ?s1)"
    if "\<forall>ei. err = ClientError (Some ei) \<longrightarrow>
          Code ei \<noteq> Some ''ValidationError'' \<or> Message ei = None \<or>
          (\<exists>msg. Message ei = Some msg \<and> re_search msg = None)"
      "err \<noteq> ClientError None"
    using assume_role_probe_raise [OF auto p no_bound_narrowing [OF that(1)] that(2)] .
  show ?thesis
  proof (intro conjI allI impI)
    fix msg ds n c2 s2 r2 w2
    assume "err = ClientError (Some (ErrorInfo (Some ''ValidationError'') (Some msg)))"
      "re_search msg = Some ds"
      "n = (if int_of_digits ds = 0 then None else Some (int_of_digits ds))"
      "sts_client b cfg ?s1 = (Inr c2, s2)"
      "assume_role_with_saml b c2 (request role pr saml n) (ext s2) = (r2, w2)"
    then show "assume_role b cfg role pr saml dur True s =
        (r2, s2\<lparr>calls := calls s @ [?probe, request role pr saml n], ext := w2\<rparr>)"
      by (rule called)
  next
    fix msg ds n e s2
    assume h: "err = ClientError (Some (ErrorInfo (Some ''ValidationError'') (Some msg)))"
      "re_search msg = Some ds"
      "n = (if int_of_digits ds = 0 then None else Some (int_of_digits ds))"
      "sts_client b cfg ?s1 = (Inl e, s2)"
    from not_built [OF h] show "assume_role b cfg role pr saml dur True s = (Inl e, s2)"
      and "calls s2 = calls s @ [?probe]" by simp_all
  next
    assume "\<forall>ei. err = ClientError (Some ei) \<longrightarrow>
          Code ei \<noteq> Some ''ValidationError'' \<or> Message ei = None \<or>
          (\<exists>msg. Message ei = Some msg \<and> re_search msg = None)"
      "err \<noteq> ClientError None"
    then show "assume_role b cfg role pr saml dur True s = (Inl err, ?s1)"
      by (rule other)
  qed
qed

text \<open>
  The theorem at the endpoint that refuses 43200 seconds with the bound 28800 and accepts
  28800 seconds, at the same endpoint behind a library that cannot build the second client,
  and at an endpoint that refuses with a validation message without a bound.
\<close>

theorem assume_role_probe_rejected_witness:
  "assume_role (example_boto limit_28800) example_config ''R'' ''P'' ''A'' None True start
     = (Inr (example_token 1),
        start\<lparr>calls := [request ''R'' ''P'' ''A'' (Some 43200), request ''R'' ''P'' ''A'' (Some 28800)],
              ext := 2\<rparr>) \<and>
   assume_role (one_client_boto limit_28800) example_config ''R'' ''P'' ''A'' None True start
     = (Inl (OtherError ''EndpointConnectionError''),
        start\<lparr>calls := [request ''R'' ''P'' ''A'' (Some 43200)], ext := 1\<rparr>) \<and>
   assume_role (example_boto (\<lambda>req k. Some unrelated_error)) example_config ''R'' ''P'' ''A'' None True start
     = (Inl unrelated_error, start\<lparr>calls := [request ''R'' ''P'' ''A'' (Some 43200)], ext := 1\<rparr>)"
proof -
  let ?probe = "request ''R'' ''P'' ''A'' (Some (max_duration example_config))"
  let ?msg = "''1 validation error detected: Value 43200 at durationSeconds failed to satisfy constraint: Member must have value less than or equal to 28800''"
  let ?s1 = "start\<lparr>calls := calls start @ [?probe], ext := 1\<rparr>"
  have e: "validation_error ''28800'' = ClientError (Some (ErrorInfo (Some ''ValidationError'') (Some ?msg)))"
    by (simp add: validation_error_def)
  have n: "Some 28800 = (if int_of_digits ''28800'' = 0 then None else Some (int_of_digits ''28800''))"
    by (simp add: int_28800)
  have c1: "sts_client (example_boto limit_28800) example_config start = (Inr (), start)"
    by (simp add: sts_client_example start_simps)
  have r1: "assume_role_with_saml (example_boto limit_28800) () ?probe (ext start)
      = (Inl (validation_error ''28800''), 1)"
    by (simp add: endpoint_example limit_28800_def request_def example_config_auto start_simps)
  have c2: "sts_client (example_boto limit_28800) example_config ?s1 = (Inr (), ?s1)"
    by (simp add: sts_client_example start_simps)
  have r2: "assume_role_with_saml (example_boto limit_28800) () (request ''R'' ''P'' ''A'' (Some 28800))
      (ext ?s1) = (Inr (example_token 1), 2)"
    by (simp add: endpoint_example limit_28800_def request_def)
  from assume_role_probe_rejected [OF example_config_auto(1) c1 r1, of None,
      THEN conjunct1, THEN spec, THEN spec, THEN spec, THEN mp, OF e, THEN mp, OF re_search_28800,
      THEN mp, OF n, THEN conjunct1, THEN spec, THEN spec, THEN spec, THEN spec,
      THEN mp, OF c2, THEN mp, OF r2]
  have a: "assume_role (example_boto limit_28800) example_config ''R'' ''P'' ''A'' None True start
     = (Inr (example_token 1),
        start\<lparr>calls := [request ''R'' ''P'' ''A'' (Some 43200), request ''R'' ''P'' ''A'' (Some 28800)],
              ext := 2\<rparr>)"
    by (simp add: example_config_auto start_simps)
  have c3: "sts_client (one_client_boto limit_28800) example_config start = (Inr (), start)"
    by (simp add: sts_client_def one_client_boto_def start_def)
  have r3: "assume_role_with_saml (one_client_boto limit_28800) () ?probe (ext start)
      = (Inl (validation_error ''28800''), 1)"
    by (simp add: one_client_boto_def limit_28800_def request_def example_config_auto start_simps)
  have c4: "sts_client (one_client_boto limit_28800) example_config ?s1
      = (Inl (OtherError ''EndpointConnectionError''), ?s1)"
    by (simp add: sts_client_def one_client_boto_def start_def)
  from assume_role_probe_rejected [OF example_config_auto(1) c3 r3, of None,
      THEN conjunct1, THEN spec, THEN spec, THEN spec, THEN mp, OF e, THEN mp, OF re_search_28800,
      THEN mp, OF n, THEN conjunct2, THEN spec, THEN spec, THEN mp, OF c4, THEN conjunct1]
  have b: "assume_role (one_client_boto limit_28800) example_config ''R'' ''P'' ''A'' None True start
     = (Inl (OtherError ''EndpointConnectionError''),
        start\<lparr>calls := [request ''R'' ''P'' ''A'' (Some 43200)], ext := 1\<rparr>)"
    by (simp add: example_config_auto start_simps)
  have c5: "sts_client (example_boto (\<lambda>req k. Some unrelated_error)) example_config start
      = (Inr (), start)"
    by (simp add: sts_client_example start_simps)
  have r5: "assume_role_with_saml (example_boto (\<lambda>req k. Some unrelated_error)) () ?probe (ext start)
      = (Inl unrelated_error, 1)"
    by (simp add: endpoint_example start_simps)
  have other: "\<forall>ei. unrelated_error = ClientError (Some ei) \<longrightarrow>
      Code ei \<noteq> Some ''ValidationError'' \<or> Message ei = None \<or>
      (\<exists>msg. Message ei = Some msg \<and> re_search msg = None)"
    using re_search_unrelated by (auto simp: unrelated_error_def simp del: re_search.simps)
  have ne: "unrelated_error \<noteq> ClientError None"
    by (simp add: unrelated_error_def)
  from assume_role_probe_rejected [OF example_config_auto(1) c5 r5, of None,
      THEN conjunct2, THEN mp, OF other, THEN mp, OF ne]
  have c: "assume_role (example_boto (\<lambda>req k. Some unrelated_error)) example_config ''R'' ''P'' ''A'' None True start
     = (Inl unrelated_error, start\<lparr>calls := [request ''R'' ''P'' ''A'' (Some 43200)], ext := 1\<rparr>)"
    by (simp add: example_config_auto start_simps)
  from a b c show ?thesis by blast
qed

text \<open>
  The claim C3 as it is worded fails for a bound of two digits: the message has the phrase
  and the bound 99, yet the probe is the only call and the error is raised.
\<close>

theorem two_digit_bound_counterexample:
  "assume_role (example_boto (\<lambda>req k. Some (validation_error ''99''))) example_config
       ''R'' ''P'' ''A'' None True start
     = (Inl (validation_error ''99''),
        start\<lparr>calls := [request ''R'' ''P'' ''A'' (Some 43200)], ext := 1\<rparr>) \<and>
   calls (snd (assume_role (example_boto (\<lambda>req k. Some (validation_error ''99''))) example_config
       ''R'' ''P'' ''A'' None True start))
     \<noteq> [request ''R'' ''P'' ''A'' (Some 43200), request ''R'' ''P'' ''A'' (Some 99)]"
proof -
  have p: "call_sts (example_boto (\<lambda>req k. Some (validation_error ''99''))) example_config
      (request ''R'' ''P'' ''A'' (Some (max_duration example_config))) start
      = (Inl (validation_error ''99''),
         start\<lparr>calls := [request ''R'' ''P'' ''A'' (Some 43200)], ext := 1\<rparr>)"
    by (simp add: call_sts_example start_simps example_config_auto)
  have ne: "validation_error ''99'' \<noteq> ClientError None"
    by (simp add: validation_error_def)
  from assume_role_probe_raise [OF example_config_auto(1) p nb_99 ne, of None] show ?thesis
    by simp
qed

text \<open>
  A bound that reads as zero is falsy in the second attempt's \<^verbatim>\<open>elif duration\<close>: the retry is
  sent without \<^verbatim>\<open>DurationSeconds\<close>.
\<close>

lemma zero_bound_retry_without_duration:
  "assume_role (example_boto (reject_first (validation_error ''000''))) example_config
       ''R'' ''P'' ''A'' None True start
     = (Inr (example_token 1),
        start\<lparr>calls := [request ''R'' ''P'' ''A'' (Some 43200), request ''R'' ''P'' ''A'' None],
              ext := 2\<rparr>)"
proof -
  have nb: "narrowing_bound (validation_error ''000'') = Some 0"
    by code_simp
  have p: "call_sts (example_boto (reject_first (validation_error ''000''))) example_config
      (request ''R'' ''P'' ''A'' (Some (max_duration example_config))) start
      = (Inl (validation_error ''000''),
         start\<lparr>calls := [request ''R'' ''P'' ''A'' (Some 43200)], ext := 1\<rparr>)"
    by (simp add: call_sts_example start_simps example_config_auto reject_first_def)
  from assume_role_probe_narrow [OF example_config_auto(1) p nb, of None] show ?thesis
    by (simp add: call_sts_example start_simps reject_first_def)
qed




section \<open>The validity window\<close>

lemma iter_tag_example:
  "iter_tag conditions_tag (example_document nb na texts) =
     [Element ''{urn:oasis:names:tc:SAML:2.0:assertion}Conditions''
        [(''NotBefore'', nb), (''NotOnOrAfter'', na)] []]"
  by (simp add: iter_tag_def example_document_def conditions_tag_def filter_concat comp_def)

lemma role_texts_example: "role_texts (example_document nb na texts) = texts"
  by (induction texts) (simp_all add: role_texts_def example_document_def role_attribute_def)

text \<open>
  C4. \<^verbatim>\<open>is_valid_saml_assertion\<close> returns a truth value on every input, and it returns true
  exactly when the input is present and parses, the first conditions element of the document
  has both time stamps and both are well formed, and \<open>not_before \<le> now < not_on_or_after\<close>.
\<close>

theorem is_valid_saml_assertion_iff:
  "is_valid_saml_assertion fromstring strptime now assertion \<longleftrightarrow>
     (\<exists>x doc c cs nb_str na_str not_before not_on_or_after.
        assertion = Some x \<and> fromstring x = Inr doc \<and>
        iter_tag conditions_tag doc = c # cs \<and>
        element_get c ''NotBefore'' = Some nb_str \<and>
        element_get c ''NotOnOrAfter'' = Some na_str \<and>
        strptime nb_str time_format = Inr not_before \<and>
        strptime na_str time_format = Inr not_on_or_after \<and>
        not_before \<le> now \<and> now < not_on_or_after)"
  by (auto simp: is_valid_saml_assertion_def validity_window_def strptime_arg_def Let_def
      split: option.splits sum.splits list.splits)

text \<open>
  The theorem at a clock reading equal to the lower bound (valid), equal to the upper bound
  (invalid), with a malformed time stamp and with a document that does not parse.
\<close>

theorem is_valid_saml_assertion_iff_witness:
  "is_valid_saml_assertion
     (example_fromstring
        (example_document ''2024-01-01T00:05:00.000000Z'' ''2024-01-01T01:00:00.000000Z'' []))
     example_strptime 300000000 (Some ''<saml/>'') \<and>
   \<not> is_valid_saml_assertion
     (example_fromstring
        (example_document ''2024-01-01T00:00:00.000000Z'' ''2024-01-01T00:05:00.000000Z'' []))
     example_strptime 300000000 (Some ''<saml/>'') \<and>
   \<not> is_valid_saml_assertion
     (example_fromstring
        (example_document ''2024-01-01T00:05:00.000000Z'' ''yesterday'' []))
     example_strptime 300000000 (Some ''<saml/>'') \<and>
   \<not> is_valid_saml_assertion
     (example_fromstring
        (example_document ''2024-01-01T00:05:00.000000Z'' ''2024-01-01T01:00:00.000000Z'' []))
     example_strptime 300000000 (Some ''<saml'')"
  by (simp add: is_valid_saml_assertion_iff example_fromstring_def iter_tag_example
        example_strptime_def)

section \<open>The role extractor\<close>

lemma split_nonempty: "split sep x \<noteq> []"
  by (induction x) (auto split: list.splits)

lemma split_unfold:
  "split sep x = takeWhile (\<lambda>c. c \<noteq> sep) x #
     (if sep \<in> set x then split sep (drop 1 (dropWhile (\<lambda>c. c \<noteq> sep) x)) else [])"
  by (induction x) (auto split: list.splits simp: split_nonempty)

lemma split_no_sep: "sep \<notin> set x \<Longrightarrow> split sep x = [x]"
  by (subst split_unfold) (auto simp: takeWhile_eq_all_conv)

lemma split_comma_fields:
  assumes c: "CHR '','' \<in> set x"
  shows "\<exists>rest. split CHR '','' x = first_field x # second_field x # rest"
proof -
  define y where "y = drop 1 (dropWhile (\<lambda>c. c \<noteq> CHR '','') x)"
  have "split CHR '','' x = first_field x # split CHR '','' y"
    using split_unfold [of "CHR '',''" x] c by (simp add: first_field_def y_def)
  moreover have "split CHR '','' y = second_field x #
      (if CHR '','' \<in> set y then split CHR '','' (drop 1 (dropWhile (\<lambda>c. c \<noteq> CHR '','') y)) else [])"
    using split_unfold [of "CHR '',''" y] by (simp add: second_field_def y_def)
  ultimately show ?thesis by simp
qed

lemma roles_loop_ok:
  "\<forall>t\<in>set xs. iam_marker t \<longrightarrow> CHR '','' \<in> set t \<Longrightarrow>
   roles_loop xs m =
     Inr (m ++ map_of (rev (map (\<lambda>t. (first_field t, second_field t)) (filter iam_marker xs))))"
proof (induction xs arbitrary: m)
  case Nil
  then show ?case by simp
next
  case (Cons x xs)
  show ?case
  proof (cases "iam_marker x")
    case False
    with Cons show ?thesis by simp
  next
    case True
    with Cons.prems obtain rest where "split CHR '','' x = first_field x # second_field x # rest"
      using split_comma_fields by auto
    with True Cons show ?thesis
      by (simp add: map_add_upd_left)
  qed
qed

lemma roles_loop_raises:
  "\<exists>t\<in>set xs. iam_marker t \<and> CHR '','' \<notin> set t \<Longrightarrow> roles_loop xs m = Inl IndexError"
proof (induction xs arbitrary: m)
  case Nil
  then show ?case by simp
next
  case (Cons x xs)
  show ?case
  proof (cases "iam_marker x \<and> CHR '','' \<notin> set x")
    case True
    then show ?thesis by (simp add: split_no_sep)
  next
    case False
    with Cons.prems have ex: "\<exists>t\<in>set xs. iam_marker t \<and> CHR '','' \<notin> set t" by auto
    show ?thesis
    proof (cases "iam_marker x")
      case False
      with Cons.IH [OF ex] show ?thesis by simp
    next
      case True
      with \<open>\<not> (iam_marker x \<and> CHR '','' \<notin> set x)\<close> obtain rest where
        "split CHR '','' x = first_field x # second_field x # rest"
        using split_comma_fields by auto
      with True Cons.IH [OF ex] show ?thesis by simp
    qed
  qed
qed

lemma xpath_text_none:
  "\<forall>e\<in>set (iter doc). element_get e ''Name'' \<noteq> Some role_attribute \<Longrightarrow> xpath_text False doc = []"
  by (induction doc) auto

lemma foo_bar_marker: "iam_marker ''arn:aws:iam::111111111111:role/Foo,arn:aws:iam::111111111111:saml-provider/Bar''"
  by code_simp

lemma foo_bar_split:
  "split CHR '','' ''arn:aws:iam::111111111111:role/Foo,arn:aws:iam::111111111111:saml-provider/Bar''
     = [''arn:aws:iam::111111111111:role/Foo'', ''arn:aws:iam::111111111111:saml-provider/Bar'']"
  by code_simp

lemma example_lookups:
  "iam_marker ''saml-provider/Bar,arn:aws-us-gov:iam::222222222222:role/Baz''"
  "\<not> iam_marker ''no marker, here''"
  "first_field ''saml-provider/Bar,arn:aws-us-gov:iam::222222222222:role/Baz'' = ''saml-provider/Bar''"
  "second_field ''saml-provider/Bar,arn:aws-us-gov:iam::222222222222:role/Baz''
     = ''arn:aws-us-gov:iam::222222222222:role/Baz''"
  "iam_marker ''arn:aws-us-gov:iam::222222222222:role/Baz''"
  "iam_marker ''arn:aws:iam::111111111111:role/Foo''"
  by code_simp+

lemma three_fields:
  "iam_marker ''arn:aws:iam::111111111111:role/Foo,arn:aws:iam::111111111111:saml-provider/Bar,arn:aws:iam::111111111111:saml-provider/Baz''"
  "split CHR '','' ''arn:aws:iam::111111111111:role/Foo,arn:aws:iam::111111111111:saml-provider/Bar,arn:aws:iam::111111111111:saml-provider/Baz''
     = [''arn:aws:iam::111111111111:role/Foo'', ''arn:aws:iam::111111111111:saml-provider/Bar'',
        ''arn:aws:iam::111111111111:saml-provider/Baz'']"
  "split_once ''arn:aws:iam::111111111111:role/Foo,arn:aws:iam::111111111111:saml-provider/Bar,arn:aws:iam::111111111111:saml-provider/Baz''
     = (''arn:aws:iam::111111111111:role/Foo'',
        ''arn:aws:iam::111111111111:saml-provider/Bar,arn:aws:iam::111111111111:saml-provider/Baz'')"
  by code_simp+

lemma no_comma_split:
  "split CHR '','' ''arn:aws:iam::111111111111:role/Foo'' = [''arn:aws:iam::111111111111:role/Foo'']"
  by code_simp

text \<open>
  C6, as amended. For a document that parses in which every text node below a role
  attribute that has an IAM partition marker also has a comma, \<^verbatim>\<open>roles\<close> returns the
  mapping that sends, for each such text node, its first field to its second field: the text
  before the first comma to the text between the first comma and the second one (or the end),
  whichever field has the marker; a later text node overrides an earlier one with the same
  key. A document without an element whose \<^verbatim>\<open>Name\<close> is the role attribute yields the empty
  mapping, and the text of the role \<^verbatim>\<open>Foo\<close> and the provider \<^verbatim>\<open>Bar\<close> yields exactly the
  mapping of the one to the other.
\<close>

theorem roles_mapping:
  assumes "fromstring x = Inr doc"
  shows
    "((\<forall>t\<in>set (role_texts doc). iam_marker t \<longrightarrow> CHR '','' \<in> set t) \<longrightarrow>
        roles fromstring (Some x) =
          Inr (map_of (rev (map (\<lambda>t. (first_field t, second_field t))
                            (filter iam_marker (role_texts doc)))))) \<and>
     ((\<forall>e\<in>set (iter doc). element_get e ''Name'' \<noteq> Some role_attribute) \<longrightarrow>
        roles fromstring (Some x) = Inr Map.empty) \<and>
     (role_texts doc =
        [''arn:aws:iam::111111111111:role/Foo,arn:aws:iam::111111111111:saml-provider/Bar''] \<longrightarrow>
        roles fromstring (Some x) =
          Inr [''arn:aws:iam::111111111111:role/Foo'' \<mapsto>
               ''arn:aws:iam::111111111111:saml-provider/Bar''])"
proof -
  have r: "roles fromstring (Some x) = roles_loop (role_texts doc) Map.empty"
    using assms by (simp add: roles_def)
  have a: "roles fromstring (Some x) =
      Inr (map_of (rev (map (\<lambda>t. (first_field t, second_field t))
                        (filter iam_marker (role_texts doc)))))"
    if "\<forall>t\<in>set (role_texts doc). iam_marker t \<longrightarrow> CHR '','' \<in> set t"
    using roles_loop_ok [OF that, of Map.empty] r by simp
  have b: "roles fromstring (Some x) = Inr Map.empty"
    if "\<forall>e\<in>set (iter doc). element_get e ''Name'' \<noteq> Some role_attribute"
    using xpath_text_none [OF that] r by (simp add: role_texts_def)
  have c: "roles fromstring (Some x) =
      Inr [''arn:aws:iam::111111111111:role/Foo'' \<mapsto>
           ''arn:aws:iam::111111111111:saml-provider/Bar'']"
    if "role_texts doc =
        [''arn:aws:iam::111111111111:role/Foo,arn:aws:iam::111111111111:saml-provider/Bar'']"
    using r that foo_bar_marker by (simp add: foo_bar_split)
  from a b c show ?thesis by blast
qed

text \<open>
  The theorem at a document whose marker stands in the second field, at a document without
  a role attribute, and at the document with the text of \<^verbatim>\<open>Foo\<close> and \<^verbatim>\<open>Bar\<close>.
\<close>

theorem roles_mapping_witness:
  "roles (example_fromstring (example_document ''a'' ''b''
       [''saml-provider/Bar,arn:aws-us-gov:iam::222222222222:role/Baz'', ''no marker, here'']))
     (Some ''<saml/>'')
     = Inr [''saml-provider/Bar'' \<mapsto> ''arn:aws-us-gov:iam::222222222222:role/Baz''] \<and>
   roles (example_fromstring (Element ''Response'' [] [Text ''arn:aws:iam::111111111111:role/Foo,x'']))
     (Some ''<saml/>'') = Inr Map.empty \<and>
   roles (example_fromstring (example_document ''a'' ''b''
       [''arn:aws:iam::111111111111:role/Foo,arn:aws:iam::111111111111:saml-provider/Bar'']))
     (Some ''<saml/>'')
     = Inr [''arn:aws:iam::111111111111:role/Foo'' \<mapsto>
            ''arn:aws:iam::111111111111:saml-provider/Bar'']"
proof -
  let ?d1 = "example_document ''a'' ''b''
       [''saml-provider/Bar,arn:aws-us-gov:iam::222222222222:role/Baz'', ''no marker, here'']"
  let ?d2 = "Element ''Response'' [] [Text ''arn:aws:iam::111111111111:role/Foo,x'']"
  let ?d3 = "example_document ''a'' ''b''
       [''arn:aws:iam::111111111111:role/Foo,arn:aws:iam::111111111111:saml-provider/Bar'']"
  have p: "example_fromstring d ''<saml/>'' = Inr d" for d
    by (simp add: example_fromstring_def)
  have h1: "\<forall>t\<in>set (role_texts ?d1). iam_marker t \<longrightarrow> CHR '','' \<in> set t"
    by (simp add: role_texts_example)
  have h2: "\<forall>e\<in>set (iter ?d2). element_get e ''Name'' \<noteq> Some role_attribute"
    by simp
  have h3: "role_texts ?d3 =
      [''arn:aws:iam::111111111111:role/Foo,arn:aws:iam::111111111111:saml-provider/Bar'']"
    by (simp add: role_texts_example)
  from roles_mapping [of "example_fromstring ?d1" "''<saml/>''" ?d1, OF p, THEN conjunct1, THEN mp, OF h1]
  have a: "roles (example_fromstring ?d1) (Some ''<saml/>'')
     = Inr [''saml-provider/Bar'' \<mapsto> ''arn:aws-us-gov:iam::222222222222:role/Baz'']"
    by (simp add: role_texts_example example_lookups)
  note b = roles_mapping [of "example_fromstring ?d2" "''<saml/>''" ?d2, OF p, THEN conjunct2, THEN conjunct1, THEN mp, OF h2]
  note c = roles_mapping [of "example_fromstring ?d3" "''<saml/>''" ?d3, OF p, THEN conjunct2, THEN conjunct2, THEN mp, OF h3]
  from a b c show ?thesis by blast
qed

text \<open>
  The claim C6 as it is worded fails on a text with two commas: the value stored is the
  second of three fields, where the text split once has all that follows the first comma as
  its second field.
\<close>

theorem roles_three_fields_counterexample:
  "roles (example_fromstring (example_document ''a'' ''b''
       [''arn:aws:iam::111111111111:role/Foo,arn:aws:iam::111111111111:saml-provider/Bar,arn:aws:iam::111111111111:saml-provider/Baz'']))
     (Some ''<saml/>'')
     = Inr [''arn:aws:iam::111111111111:role/Foo'' \<mapsto>
            ''arn:aws:iam::111111111111:saml-provider/Bar''] \<and>
   split_once ''arn:aws:iam::111111111111:role/Foo,arn:aws:iam::111111111111:saml-provider/Bar,arn:aws:iam::111111111111:saml-provider/Baz''
     = (''arn:aws:iam::111111111111:role/Foo'',
        ''arn:aws:iam::111111111111:saml-provider/Bar,arn:aws:iam::111111111111:saml-provider/Baz'') \<and>
   roles (example_fromstring (example_document ''a'' ''b''
       [''arn:aws:iam::111111111111:role/Foo,arn:aws:iam::111111111111:saml-provider/Bar,arn:aws:iam::111111111111:saml-provider/Baz'']))
     (Some ''<saml/>'')
     \<noteq> Inr [fst (split_once ''arn:aws:iam::111111111111:role/Foo,arn:aws:iam::111111111111:saml-provider/Bar,arn:aws:iam::111111111111:saml-provider/Baz'') \<mapsto>
            snd (split_once ''arn:aws:iam::111111111111:role/Foo,arn:aws:iam::111111111111:saml-provider/Bar,arn:aws:iam::111111111111:saml-provider/Baz'')]"
  using three_fields(1)
  by (simp add: roles_def example_fromstring_def role_texts_example three_fields(2,3) fun_eq_iff)

text \<open>
  C7, as amended. \<^verbatim>\<open>roles\<close> raises the error of the parser when the input does not parse.
  On an input that parses it raises \<^verbatim>\<open>IndexError\<close> when some text node below a role attribute
  has an IAM partition marker and no comma, and returns a mapping otherwise.
\<close>

theorem roles_raises:
  "(fromstring x = Inl e \<longrightarrow> roles fromstring (Some x) = Inl e) \<and>
   (fromstring x = Inr doc \<longrightarrow>
      (if \<exists>t\<in>set (role_texts doc). iam_marker t \<and> CHR '','' \<notin> set t
       then roles fromstring (Some x) = Inl IndexError
       else \<exists>m. roles fromstring (Some x) = Inr m))"
proof -
  have parse: "roles fromstring (Some x) = Inl e" if "fromstring x = Inl e"
    using that by (simp add: roles_def)
  have parsed: "(if \<exists>t\<in>set (role_texts doc). iam_marker t \<and> CHR '','' \<notin> set t
       then roles fromstring (Some x) = Inl IndexError
       else \<exists>m. roles fromstring (Some x) = Inr m)" if "fromstring x = Inr doc"
    using that roles_loop_raises [of "role_texts doc" Map.empty]
      roles_loop_ok [of "role_texts doc" Map.empty]
    by (auto simp: roles_def)
  from parse parsed show ?thesis by blast
qed

text \<open>
  The theorem at an input that does not parse, at a document with a role without a
  provider, and at one with both.
\<close>

theorem roles_raises_witness:
  "roles (example_fromstring (example_document ''a'' ''b'' [])) (Some ''<saml'')
     = Inl (OtherError ''XMLSyntaxError'') \<and>
   roles (example_fromstring (example_document ''a'' ''b''
       [''arn:aws-us-gov:iam::222222222222:role/Baz'']))
     (Some ''<saml/>'') = Inl IndexError \<and>
   (\<exists>m. roles (example_fromstring (example_document ''a'' ''b''
       [''saml-provider/Bar,arn:aws-us-gov:iam::222222222222:role/Baz'', ''no marker, here'']))
     (Some ''<saml/>'') = Inr m)"
proof -
  let ?d0 = "example_document ''a'' ''b'' []"
  let ?d1 = "example_document ''a'' ''b'' [''arn:aws-us-gov:iam::222222222222:role/Baz'']"
  let ?d2 = "example_document ''a'' ''b''
       [''saml-provider/Bar,arn:aws-us-gov:iam::222222222222:role/Baz'', ''no marker, here'']"
  have p: "example_fromstring d ''<saml/>'' = Inr d" for d
    by (simp add: example_fromstring_def)
  have q: "example_fromstring ?d0 ''<saml'' = Inl (OtherError ''XMLSyntaxError'')"
    by (simp add: example_fromstring_def)
  note z = roles_raises [of "example_fromstring ?d0" "''<saml''" "OtherError ''XMLSyntaxError''",
      THEN conjunct1, THEN mp, OF q]
  from roles_raises [of "example_fromstring ?d1" "''<saml/>''" _ ?d1, THEN conjunct2, THEN mp, OF p]
  have a: "roles (example_fromstring ?d1) (Some ''<saml/>'') = Inl IndexError"
    by (simp add: role_texts_example example_lookups)
  from roles_raises [of "example_fromstring ?d2" "''<saml/>''" _ ?d2, THEN conjunct2, THEN mp, OF p]
  have b: "\<exists>m. roles (example_fromstring ?d2) (Some ''<saml/>'') = Inr m"
    by (simp add: role_texts_example example_lookups)
  from z a b show ?thesis by blast
qed

text \<open>
  The claim C7 as it is worded fails on a document that parses and whose role attribute
  holds a role identifier without a comma: \<^verbatim>\<open>roles\<close> raises \<^verbatim>\<open>IndexError\<close>.
\<close>

theorem roles_no_comma_counterexample:
  "roles (example_fromstring (example_document ''a'' ''b'' [''arn:aws:iam::111111111111:role/Foo'']))
     (Some ''<saml/>'') = Inl IndexError"
  using example_lookups(6)
  by (simp add: roles_def example_fromstring_def role_texts_example no_comma_split)

section \<open>The memoized token\<close>

lemma token_memo_hit: "token_memo self = Some t \<Longrightarrow> token b self s = (Inr t, self, s)"
  by (simp add: token_def)

lemma token_materializes:
  "token b self s = (Inr t, self', s') \<Longrightarrow> token_memo self' = Some t"
  by (auto simp: token_def split: option.splits sum.splits prod.splits)

lemma token_field_memo_hit:
  "token_memo self = Some t \<Longrightarrow> token_field key b self s = (credential_field t key, self, s)"
  by (simp add: token_field_def token_memo_hit)

lemma init_seeded:
  "token_cache cfg = Some tc \<Longrightarrow> tc \<noteq> [] \<Longrightarrow>
   token_memo (init cfg xml) = Some [(''Credentials'', tc)]"
  by (simp add: init_def)

lemma token_first_access:
  "token (example_boto (\<lambda>req k. None)) (init example_config (Some ''<saml/>'')) start
     = (Inr (example_token 1),
        init example_config (Some ''<saml/>'')\<lparr>token_memo := Some (example_token 1)\<rparr>,
        start\<lparr>calls := [request ''arn:aws:iam::111111111111:role/Foo''
                           ''arn:aws:iam::111111111111:saml-provider/Bar'' ''<saml/>'' (Some 43200),
                         request ''arn:aws:iam::111111111111:role/Foo''
                           ''arn:aws:iam::111111111111:saml-provider/Bar'' ''<saml/>'' (Some 43200)],
              ext := 2\<rparr>)"
  by (simp add: token_def init_def base64_encoded_saml_def example_boto_def [THEN arg_cong, of b64encode]
        assume_role.simps call_sts_example start_simps example_config_def request_def Let_def start_def)

lemma token_first_access':
  "token accept_all fresh_broker start = (Inr (example_token 1), materialized_broker, after_first_access)"
  unfolding accept_all_def fresh_broker_def materialized_broker_def after_first_access_def
  by (rule token_first_access)

lemma example_token_fields:
  "credential_field (example_token k) ''AccessKeyId'' = Inr (Str ''AK'')"
  "credential_field (example_token k) ''SecretAccessKey'' = Inr (Str ''SK'')"
  "credential_field (example_token k) ''SessionToken'' = Inr (Str ''TOK'')"
  "credential_field (example_token k) ''Expiration'' = Inr (Datetime (int k))"
  by (simp_all add: credential_field_def example_token_def)

text \<open>An access that raises memoizes nothing: the broker is as before.\<close>

lemma token_failure_not_memoized:
  "token b self s = (Inl e, self', s') \<Longrightarrow> self' = self"
  by (auto simp: token_def split: option.splits sum.splits prod.splits)

text \<open>
  C5. Once an access to the token has returned a token \<open>t\<close>, every later access, through
  \<^verbatim>\<open>token\<close> or through one of the four accessors and in whatever state, returns \<open>t\<close> or the
  field of \<open>t\<close> and leaves the broker and the state, hence the log of endpoint calls, as they
  are; the same holds after an accessor has returned a value. A broker built from a
  configuration with a non-empty token cache answers every access from the cache, without
  any change of the state.
\<close>

theorem token_memoized:
  "(token b self s = (Inr t, self', s') \<longrightarrow>
      (\<forall>s2. token b self' s2 = (Inr t, self', s2) \<and>
            access_key_id b self' s2 = (credential_field t ''AccessKeyId'', self', s2) \<and>
            secret_access_key b self' s2 = (credential_field t ''SecretAccessKey'', self', s2) \<and>
            session_token b self' s2 = (credential_field t ''SessionToken'', self', s2) \<and>
            expiration b self' s2 = (credential_field t ''Expiration'', self', s2))) \<and>
   (token_field key b self s = (Inr v, self', s') \<longrightarrow>
      (\<forall>s2. token_field key b self' s2 = (Inr v, self', s2))) \<and>
   (token_cache cfg = Some tc \<longrightarrow> tc \<noteq> [] \<longrightarrow>
      (\<forall>s2. token b (init cfg xml) s2 = (Inr [(''Credentials'', tc)], init cfg xml, s2) \<and>
            access_key_id b (init cfg xml) s2
              = (credential_field [(''Credentials'', tc)] ''AccessKeyId'', init cfg xml, s2) \<and>
            secret_access_key b (init cfg xml) s2
              = (credential_field [(''Credentials'', tc)] ''SecretAccessKey'', init cfg xml, s2) \<and>
            session_token b (init cfg xml) s2
              = (credential_field [(''Credentials'', tc)] ''SessionToken'', init cfg xml, s2) \<and>
            expiration b (init cfg xml) s2
              = (credential_field [(''Credentials'', tc)] ''Expiration'', init cfg xml, s2)))"
proof -
  have hit: "token b a s2 = (Inr u, a, s2) \<and>
      access_key_id b a s2 = (credential_field u ''AccessKeyId'', a, s2) \<and>
      secret_access_key b a s2 = (credential_field u ''SecretAccessKey'', a, s2) \<and>
      session_token b a s2 = (credential_field u ''SessionToken'', a, s2) \<and>
      expiration b a s2 = (credential_field u ''Expiration'', a, s2)"
    if "token_memo a = Some u" for a u s2
    using that
    by (simp add: token_memo_hit token_field_memo_hit access_key_id_def secret_access_key_def
          session_token_def expiration_def)
  have first: "\<forall>s2. token b self' s2 = (Inr t, self', s2) \<and>
            access_key_id b self' s2 = (credential_field t ''AccessKeyId'', self', s2) \<and>
            secret_access_key b self' s2 = (credential_field t ''SecretAccessKey'', self', s2) \<and>
            session_token b self' s2 = (credential_field t ''SessionToken'', self', s2) \<and>
            expiration b self' s2 = (credential_field t ''Expiration'', self', s2)"
    if "token b self s = (Inr t, self', s')"
    using hit [OF token_materializes [OF that]] by blast
  have field: "\<forall>s2. token_field key b self' s2 = (Inr v, self', s2)"
    if f: "token_field key b self s = (Inr v, self', s')"
  proof -
    from f obtain u where u: "token b self s = (Inr u, self', s')" "credential_field u key = Inr v"
      by (auto simp: token_field_def split: prod.splits sum.splits)
    from token_materializes [OF u(1)] u(2) show ?thesis
      by (simp add: token_field_memo_hit)
  qed
  have seed: "\<forall>s2. token b (init cfg xml) s2 = (Inr [(''Credentials'', tc)], init cfg xml, s2) \<and>
            access_key_id b (init cfg xml) s2
              = (credential_field [(''Credentials'', tc)] ''AccessKeyId'', init cfg xml, s2) \<and>
            secret_access_key b (init cfg xml) s2
              = (credential_field [(''Credentials'', tc)] ''SecretAccessKey'', init cfg xml, s2) \<and>
            session_token b (init cfg xml) s2
              = (credential_field [(''Credentials'', tc)] ''SessionToken'', init cfg xml, s2) \<and>
            expiration b (init cfg xml) s2
              = (credential_field [(''Credentials'', tc)] ''Expiration'', init cfg xml, s2)"
    if "token_cache cfg = Some tc" "tc \<noteq> []"
    using hit [OF init_seeded [OF that]] by blast
  from first field seed show ?thesis by blast
qed

text \<open>
  The theorem at a broker whose first access calls the endpoint, and at a broker seeded
  with a cached access key.
\<close>

theorem token_memoized_witness:
  "token accept_all fresh_broker start
     = (Inr (example_token 1), materialized_broker, after_first_access) \<and>
   token accept_all materialized_broker after_first_access
     = (Inr (example_token 1), materialized_broker, after_first_access) \<and>
   access_key_id accept_all materialized_broker after_first_access
     = (Inr (Str ''AK''), materialized_broker, after_first_access) \<and>
   expiration accept_all materialized_broker after_first_access
     = (Inr (Datetime 1), materialized_broker, after_first_access) \<and>
   token_field ''SessionToken'' accept_all materialized_broker start
     = (Inr (Str ''TOK''), materialized_broker, start) \<and>
   token accept_all (init cached_config None) start
     = (Inr [(''Credentials'', [(''AccessKeyId'', Str ''CACHED'')])], init cached_config None, start) \<and>
   access_key_id accept_all (init cached_config None) start
     = (Inr (Str ''CACHED''), init cached_config None, start)"
proof -
  note first = token_first_access'
  have field: "token_field ''SessionToken'' accept_all fresh_broker start
      = (Inr (Str ''TOK''), materialized_broker, after_first_access)"
    by (simp add: token_field_def first example_token_fields)
  have cache: "token_cache cached_config = Some [(''AccessKeyId'', Str ''CACHED'')]"
      "[(''AccessKeyId'', Str ''CACHED'')] \<noteq> []"
    by (simp_all add: cached_config_def)
  note T = token_memoized [of accept_all fresh_broker start "example_token 1" materialized_broker
      after_first_access "''SessionToken''" "Str ''TOK''" cached_config
      "[(''AccessKeyId'', Str ''CACHED'')]" None]
  from T [THEN conjunct1, THEN mp, OF first, THEN spec, of after_first_access]
  have a: "token accept_all materialized_broker after_first_access
     = (Inr (example_token 1), materialized_broker, after_first_access) \<and>
   access_key_id accept_all materialized_broker after_first_access
     = (Inr (Str ''AK''), materialized_broker, after_first_access) \<and>
   expiration accept_all materialized_broker after_first_access
     = (Inr (Datetime 1), materialized_broker, after_first_access)"
    by (simp add: example_token_fields)
  note b = T [THEN conjunct2, THEN conjunct1, THEN mp, OF field, THEN spec, of start]
  from T [THEN conjunct2, THEN conjunct2, THEN mp, OF cache(1), THEN mp, OF cache(2), THEN spec, of start]
  have c: "token accept_all (init cached_config None) start
     = (Inr [(''Credentials'', [(''AccessKeyId'', Str ''CACHED'')])], init cached_config None, start) \<and>
   access_key_id accept_all (init cached_config None) start
     = (Inr (Str ''CACHED''), init cached_config None, start)"
    by (simp add: credential_field_def)
  from first a b c show ?thesis by blast
qed

section \<open>The client constructor and the environment\<close>

lemma sts_client_restores:
  "sts_client b cfg s = (Inr c, s') \<Longrightarrow> environ s' = environ s"
  by (auto simp: sts_client_def Let_def fun_eq_iff split: option.splits prod.splits sum.splits exn.splits)

lemma sts_client_failure_env:
  "sts_client b cfg s = (Inl e, s') \<Longrightarrow> environ s' = (environ s)(''AWS_PROFILE'' := None)"
  by (auto simp: sts_client_def Let_def fun_eq_iff split: option.splits prod.splits sum.splits exn.splits)

text \<open>
  C9. The claim: \<^verbatim>\<open>AWS_PROFILE\<close> has its prior value after \<^verbatim>\<open>sts_client\<close>, whether the
  construction succeeds or fails. The method does otherwise when the construction fails: with
  \<^verbatim>\<open>AWS_PROFILE\<close> set to \<^verbatim>\<open>dev\<close> and a constructor that raises \<^verbatim>\<open>ProfileNotFound\<close>, the
  method raises and \<^verbatim>\<open>AWS_PROFILE\<close> stays removed.
\<close>

theorem sts_client_profile_not_restored:
  "environ profile_world ''AWS_PROFILE'' = Some ''dev'' \<and>
   sts_client profile_boto example_config profile_world
     = (Inl (ExpectedAmazonException ''Error : The config profile (missing) could not be found.''),
        profile_world\<lparr>environ := [''AWS_DEFAULT_PROFILE'' \<mapsto> ''missing'']\<rparr>) \<and>
   environ (snd (sts_client profile_boto example_config profile_world)) ''AWS_PROFILE'' = None"
  by (simp add: sts_client_def profile_boto_def profile_world_def fun_eq_iff)

section \<open>The alias resolver\<close>








text \<open>
  A role ARN of fewer than five fields: the handler's own index raises, the thread ends and
  writes nothing.
\<close>

lemma malformed_arn_no_entry:
  "resolve_aws_aliases api b self [(''arn:aws:iam:x'', p)] = Map.empty"
proof -
  have "split CHR '':'' ''arn:aws:iam:x'' = [''arn'', ''aws'', ''iam'', ''x'']"
    by code_simp
  then have "account_field ''arn:aws:iam:x'' = Inl IndexError"
    by (simp add: account_field_def)
  then show ?thesis
    by (simp add: resolve_aws_aliases_def resolve_aws_alias_def and_then_def split: sum.splits)
qed




end
